theory Spec2Isabelle
  imports Complex_Main "HOL-Library.Sublist" "HOL-Library.AList"
begin

section \<open>JavaScript values\<close>

text \<open>
  The validators of \<^verbatim>\<open>lib/types.ts\<close> take \<^verbatim>\<open>unknown\<close> and inspect it with
  \<^verbatim>\<open>typeof\<close>, truthiness and property reads, so the model works on untyped
  JavaScript values. A number is a finite value (taken as a rational: every finite double
  is one), \<^verbatim>\<open>NaN\<close> or an infinity. A string is a list of code units, read here as
  \<open>char\<close>s (code units below 256). An object is its list of own properties.
  Functions, symbols and bigints do not occur: the candidates are request literals and
  parsed JSON.
\<close>

datatype jsnum = Fin rat | NaN | PosInfinity | NegInfinity

datatype jsval =
    JUndefined
  | JNull
  | JBool bool
  | JNum jsnum
  | JStr string
  | JArr "jsval list"
  | JObj "(string \<times> jsval) list"

fun typeof :: "jsval \<Rightarrow> string" where
  "typeof JUndefined = ''undefined''"
| "typeof JNull = ''object''"
| "typeof (JBool b) = ''boolean''"
| "typeof (JNum n) = ''number''"
| "typeof (JStr s) = ''string''"
| "typeof (JArr xs) = ''object''"
| "typeof (JObj kvs) = ''object''"

text \<open>Truthiness: what \<^verbatim>\<open>!v\<close>, \<^verbatim>\<open>v && ...\<close> and \<^verbatim>\<open>v || ...\<close> test.\<close>

fun truthy :: "jsval \<Rightarrow> bool" where
  "truthy JUndefined = False"
| "truthy JNull = False"
| "truthy (JBool b) = b"
| "truthy (JNum n) = (n \<noteq> Fin 0 \<and> n \<noteq> NaN)"
| "truthy (JStr s) = (s \<noteq> [])"
| "truthy (JArr xs) = True"
| "truthy (JObj kvs) = True"

text \<open>\<^verbatim>\<open>a || b\<close> on values.\<close>

definition js_or :: "jsval \<Rightarrow> jsval \<Rightarrow> jsval" where
  "js_or a b = (if truthy a then a else b)"

text \<open>
  The property read \<^verbatim>\<open>v.k\<close> for the names the code reads. It is only evaluated
  behind a guard that excludes \<^verbatim>\<open>undefined\<close> and \<^verbatim>\<open>null\<close> (where the read
  would throw); on a primitive or an array none of the names read is defined, except an
  array's \<^verbatim>\<open>length\<close>.
\<close>

fun get_prop :: "jsval \<Rightarrow> string \<Rightarrow> jsval" where
  "get_prop (JObj kvs) k = (case map_of kvs k of None \<Rightarrow> JUndefined | Some v \<Rightarrow> v)"
| "get_prop (JArr xs) k = (if k = ''length'' then JNum (Fin (of_nat (length xs))) else JUndefined)"
| "get_prop v k = JUndefined"

text \<open>\<^verbatim>\<open>k in v\<close> for an object \<open>v\<close>.\<close>

fun has_prop :: "jsval \<Rightarrow> string \<Rightarrow> bool" where
  "has_prop (JObj kvs) k = (map_of kvs k \<noteq> None)"
| "has_prop (JArr xs) k = (k = ''length'')"
| "has_prop v k = False"

text \<open>The string behind a value already known to be one (\<^verbatim>\<open>typeof v === 'string'\<close>).\<close>

fun the_string :: "jsval \<Rightarrow> string" where
  "the_string (JStr s) = s"
| "the_string v = []"

fun the_number :: "jsval \<Rightarrow> jsnum" where
  "the_number (JNum n) = n"
| "the_number v = NaN"

text \<open>The relational operator \<^verbatim>\<open><\<close> on numbers: false whenever an operand is \<^verbatim>\<open>NaN\<close>.\<close>

fun js_lt :: "jsnum \<Rightarrow> jsnum \<Rightarrow> bool" where
  "js_lt (Fin a) (Fin b) = (a < b)"
| "js_lt (Fin a) PosInfinity = True"
| "js_lt NegInfinity (Fin b) = True"
| "js_lt NegInfinity PosInfinity = True"
| "js_lt a b = False"

text \<open>
  \<^verbatim>\<open>String.prototype.trim\<close>: strips white space and line terminators from both
  ends. Among the code units below 256 these are TAB, LF, VT, FF, CR, SPACE and NBSP.
\<close>

definition is_js_whitespace :: "char \<Rightarrow> bool" where
  "is_js_whitespace c = (of_char c \<in> {9, 10, 11, 12, 13, 32, 160 :: nat})"

definition js_trim :: "string \<Rightarrow> string" where
  "js_trim s = rev (dropWhile is_js_whitespace (rev (dropWhile is_js_whitespace s)))"

text \<open>\<^verbatim>\<open>Array.prototype.join\<close> on strings.\<close>

fun join :: "string \<Rightarrow> string list \<Rightarrow> string" where
  "join sep [] = []"
| "join sep [x] = x"
| "join sep (x # y # ys) = x @ sep @ join sep (y # ys)"

text \<open>Decimal rendering of a natural number, as a template literal renders an index or a status.\<close>

fun string_of_nat :: "nat \<Rightarrow> string" where
  "string_of_nat n =
     (if n < 10 then [''0123456789'' ! n]
      else string_of_nat (n div 10) @ [''0123456789'' ! (n mod 10)])"

declare string_of_nat.simps [simp del]

section \<open>Permitted value sets (\<^verbatim>\<open>lib/types.ts\<close>)\<close>

definition ASPECT_RATIOS :: "string list" where
  "ASPECT_RATIOS = [''1:1'', ''16:9'', ''9:16'', ''4:3'']"

definition RESOLUTIONS :: "string list" where
  "RESOLUTIONS = [''512x512'', ''1024x1024'', ''1536x1536'', ''2048x2048'']"

definition STYLES :: "string list" where
  "STYLES = [''realistic'', ''artistic'', ''cartoon'', ''abstract'']"

definition CONTENT_TYPES :: "string list" where
  "CONTENT_TYPES = [''none'', ''photo'', ''art'']"

definition COLOR_TONES :: "string list" where
  "COLOR_TONES = [''none'', ''black and white'', ''cool tone'', ''golden'',
     ''monochromatic'', ''muted color'', ''pastel color'', ''toned image'']"

definition LIGHTING_OPTIONS :: "string list" where
  "LIGHTING_OPTIONS = [''none'', ''backlighting'', ''dramatic light'', ''long-time exposure'',
     ''low lighting'', ''multiexposure'', ''studio light'', ''surreal lighting'']"

definition COMPOSITION_OPTIONS :: "string list" where
  "COMPOSITION_OPTIONS = [''none'', ''closeup'', ''knolling'', ''landscape photography'',
     ''photographed through window'', ''shallow depth of field'', ''shot from above'',
     ''shot from below'', ''surface details'', ''wide angle'']"

definition NUM_IMAGES_OPTIONS :: "nat list" where
  "NUM_IMAGES_OPTIONS = [1, 2, 3, 4]"

definition EDIT_MODES :: "string list" where
  "EDIT_MODES = [''EDIT_MODE_INPAINT_INSERTION'', ''EDIT_MODE_INPAINT_REMOVAL'',
     ''EDIT_MODE_BGSWAP'', ''EDIT_MODE_OUTPAINT'']"

definition MASK_MODES :: "string list" where
  "MASK_MODES = [''foreground'', ''background'', ''semantic'', ''prompt'']"

text \<open>\<^verbatim>\<open>NUM_IMAGES_OPTIONS.includes(n)\<close> for a number \<open>n\<close>.\<close>

definition num_images_includes :: "jsnum \<Rightarrow> bool" where
  "num_images_includes n = (n \<in> set (map (\<lambda>k. Fin (of_nat k)) NUM_IMAGES_OPTIONS))"

section \<open>Validation errors\<close>

text \<open>
  \<^verbatim>\<open>interface ValidationError { field; message; value? }\<close>. An omitted
  \<^verbatim>\<open>value\<close> reads as \<^verbatim>\<open>undefined\<close>.
\<close>

record ValidationError =
  field :: string
  message :: string
  value' :: jsval

section \<open>\<^verbatim>\<open>validateImageGenerationRequest\<close>\<close>

text \<open>
  The function pushes onto one \<^verbatim>\<open>errors\<close> array in a fixed sequence of blocks, one
  per field; each block is modelled by the list of errors it pushes, and the function is
  their concatenation in source order.
\<close>

definition validate_prompt :: "jsval \<Rightarrow> ValidationError list" where
  "validate_prompt req =
     (let p = get_prop req ''prompt'' in
      if \<not> truthy p \<or> typeof p \<noteq> ''string'' then
        [\<lparr>field = ''prompt'', message = ''Prompt must be a string'', value' = p\<rparr>]
      else if length (js_trim (the_string p)) = 0 then
        [\<lparr>field = ''prompt'', message = ''Prompt cannot be empty'', value' = p\<rparr>]
      else if length (the_string p) > 2000 then
        [\<lparr>field = ''prompt'', message = ''Prompt must be less than 2000 characters'', value' = p\<rparr>]
      else [])"

definition validate_ratio :: "jsval \<Rightarrow> ValidationError list" where
  "validate_ratio req =
     (let r = get_prop req ''ratio'' in
      if \<not> truthy r \<or> typeof r \<noteq> ''string'' then
        [\<lparr>field = ''ratio'', message = ''Aspect ratio must be a string'', value' = r\<rparr>]
      else if the_string r \<notin> set ASPECT_RATIOS then
        [\<lparr>field = ''ratio'',
          message = ''Aspect ratio must be one of: '' @ join '', '' ASPECT_RATIOS,
          value' = r\<rparr>]
      else [])"

definition validate_resolution :: "jsval \<Rightarrow> ValidationError list" where
  "validate_resolution req =
     (let r = get_prop req ''resolution'' in
      if \<not> truthy r \<or> typeof r \<noteq> ''string'' then
        [\<lparr>field = ''resolution'', message = ''Resolution must be a string'', value' = r\<rparr>]
      else if the_string r \<notin> set RESOLUTIONS then
        [\<lparr>field = ''resolution'',
          message = ''Resolution must be one of: '' @ join '', '' RESOLUTIONS,
          value' = r\<rparr>]
      else [])"

definition validate_style :: "jsval \<Rightarrow> ValidationError list" where
  "validate_style req =
     (let s = get_prop req ''style'' in
      if \<not> truthy s \<or> typeof s \<noteq> ''string'' then
        [\<lparr>field = ''style'', message = ''Style must be a string'', value' = s\<rparr>]
      else if the_string s \<notin> set STYLES then
        [\<lparr>field = ''style'',
          message = ''Style must be one of: '' @ join '', '' STYLES,
          value' = s\<rparr>]
      else [])"

definition validate_contentType :: "jsval \<Rightarrow> ValidationError list" where
  "validate_contentType req =
     (let c = get_prop req ''contentType'' in
      if c \<noteq> JUndefined then
        (if typeof c \<noteq> ''string'' then
           [\<lparr>field = ''contentType'', message = ''Content type must be a string'', value' = c\<rparr>]
         else if the_string c \<notin> set CONTENT_TYPES then
           [\<lparr>field = ''contentType'',
             message = ''Content type must be one of: '' @ join '', '' CONTENT_TYPES,
             value' = c\<rparr>]
         else [])
      else [])"

definition validate_colorTone :: "jsval \<Rightarrow> ValidationError list" where
  "validate_colorTone req =
     (let c = get_prop req ''colorTone'' in
      if c \<noteq> JUndefined then
        (if typeof c \<noteq> ''string'' then
           [\<lparr>field = ''colorTone'', message = ''Color tone must be a string'', value' = c\<rparr>]
         else if the_string c \<notin> set COLOR_TONES then
           [\<lparr>field = ''colorTone'',
             message = ''Color tone must be one of: '' @ join '', '' COLOR_TONES,
             value' = c\<rparr>]
         else [])
      else [])"

definition validate_lighting :: "jsval \<Rightarrow> ValidationError list" where
  "validate_lighting req =
     (let l = get_prop req ''lighting'' in
      if l \<noteq> JUndefined then
        (if typeof l \<noteq> ''string'' then
           [\<lparr>field = ''lighting'', message = ''Lighting must be a string'', value' = l\<rparr>]
         else if the_string l \<notin> set LIGHTING_OPTIONS then
           [\<lparr>field = ''lighting'',
             message = ''Lighting must be one of: '' @ join '', '' LIGHTING_OPTIONS,
             value' = l\<rparr>]
         else [])
      else [])"

definition validate_composition :: "jsval \<Rightarrow> ValidationError list" where
  "validate_composition req =
     (let c = get_prop req ''composition'' in
      if c \<noteq> JUndefined then
        (if typeof c \<noteq> ''string'' then
           [\<lparr>field = ''composition'', message = ''Composition must be a string'', value' = c\<rparr>]
         else if the_string c \<notin> set COMPOSITION_OPTIONS then
           [\<lparr>field = ''composition'',
             message = ''Composition must be one of: '' @ join '', '' COMPOSITION_OPTIONS,
             value' = c\<rparr>]
         else [])
      else [])"

definition validate_numImages :: "jsval \<Rightarrow> ValidationError list" where
  "validate_numImages req =
     (let n = get_prop req ''numImages'' in
      if n \<noteq> JUndefined then
        (if typeof n \<noteq> ''number'' then
           [\<lparr>field = ''numImages'', message = ''Number of images must be a number'', value' = n\<rparr>]
         else if \<not> num_images_includes (the_number n) then
           [\<lparr>field = ''numImages'',
             message = ''Number of images must be one of: ''
                         @ join '', '' (map string_of_nat NUM_IMAGES_OPTIONS),
             value' = n\<rparr>]
         else [])
      else [])"

definition validateImageGenerationRequest :: "jsval \<Rightarrow> ValidationError list" where
  "validateImageGenerationRequest request =
     (if \<not> truthy request \<or> typeof request \<noteq> ''object'' then
        [\<lparr>field = ''request'', message = ''Request must be an object'', value' = JUndefined\<rparr>]
      else
        validate_prompt request @ validate_ratio request @ validate_resolution request
        @ validate_style request @ validate_contentType request @ validate_colorTone request
        @ validate_lighting request @ validate_composition request
        @ validate_numImages request)"

section \<open>\<^verbatim>\<open>validatePromptRewriteRequest\<close> and \<^verbatim>\<open>validateImageEditRequest\<close>\<close>

definition validatePromptRewriteRequest :: "jsval \<Rightarrow> ValidationError list" where
  "validatePromptRewriteRequest request =
     (if \<not> truthy request \<or> typeof request \<noteq> ''object'' then
        [\<lparr>field = ''request'', message = ''Request must be an object'', value' = JUndefined\<rparr>]
      else validate_prompt request)"

definition validate_editMode :: "jsval \<Rightarrow> ValidationError list" where
  "validate_editMode req =
     (let m = get_prop req ''editMode'' in
      if \<not> truthy m \<or> typeof m \<noteq> ''string'' then
        [\<lparr>field = ''editMode'', message = ''Edit mode must be a string'', value' = m\<rparr>]
      else if the_string m \<notin> set EDIT_MODES then
        [\<lparr>field = ''editMode'',
          message = ''Edit mode must be one of: '' @ join '', '' EDIT_MODES,
          value' = m\<rparr>]
      else [])"

definition validate_maskMode :: "jsval \<Rightarrow> ValidationError list" where
  "validate_maskMode req =
     (let m = get_prop req ''maskMode'' in
      if \<not> truthy m \<or> typeof m \<noteq> ''string'' then
        [\<lparr>field = ''maskMode'', message = ''Mask mode must be a string'', value' = m\<rparr>]
      else if the_string m \<notin> set MASK_MODES then
        [\<lparr>field = ''maskMode'',
          message = ''Mask mode must be one of: '' @ join '', '' MASK_MODES,
          value' = m\<rparr>]
      else [])"

definition validate_edit_numImages :: "jsval \<Rightarrow> ValidationError list" where
  "validate_edit_numImages req =
     (let n = get_prop req ''numImages'' in
      if n \<noteq> JUndefined then
        (if typeof n \<noteq> ''number'' then
           [\<lparr>field = ''numImages'', message = ''Number of images must be a number'', value' = n\<rparr>]
         else if js_lt (the_number n) (Fin 1) \<or> js_lt (Fin 4) (the_number n) then
           [\<lparr>field = ''numImages'', message = ''Number of images must be between 1 and 4'',
             value' = n\<rparr>]
         else [])
      else [])"

definition validateImageEditRequest :: "jsval \<Rightarrow> ValidationError list" where
  "validateImageEditRequest request =
     (if \<not> truthy request \<or> typeof request \<noteq> ''object'' then
        [\<lparr>field = ''request'', message = ''Request must be an object'', value' = JUndefined\<rparr>]
      else
        validate_prompt request @ validate_editMode request @ validate_maskMode request
        @ validate_edit_numImages request)"

section \<open>Thrown values and the typed service error (\<^verbatim>\<open>lib/api.ts\<close>)\<close>

text \<open>
  A native error object (\<^verbatim>\<open>Error\<close>, \<^verbatim>\<open>TypeError\<close>, the \<^verbatim>\<open>AbortError\<close> of an
  aborted fetch, the \<^verbatim>\<open>SyntaxError\<close> of a failed JSON parse): whether it is an instance
  of \<^verbatim>\<open>TypeError\<close>, its \<^verbatim>\<open>name\<close> and its \<^verbatim>\<open>message\<close>.
\<close>

datatype js_error = JsError (is_TypeError: bool) (error_name: string) (error_text: string)

text \<open>
  \<^verbatim>\<open>class ApiServiceError extends Error\<close>. The fields hold the constructor's arguments:
  \<open>error_message\<close> is the \<^verbatim>\<open>message\<close> argument (which \<^verbatim>\<open>Error\<close> stores as a
  string, unchanged when it is one), \<open>code\<close> and \<open>details\<close> are
  \<^verbatim>\<open>undefined\<close> when omitted, and \<open>validationErrors\<close> is \<open>None\<close> when omitted.
  The constructor has no default for any of them.
\<close>

record ApiServiceError =
  error_message :: jsval
  code :: jsval
  details :: jsval
  validationErrors :: "ValidationError list option"

definition new_ApiServiceError ::
  "jsval \<Rightarrow> jsval \<Rightarrow> jsval \<Rightarrow> ValidationError list option \<Rightarrow> ApiServiceError" where
  "new_ApiServiceError msg c d ves =
     \<lparr>error_message = msg, code = c, details = d, validationErrors = ves\<rparr>"

definition isValidationError :: "ApiServiceError \<Rightarrow> bool" where
  "isValidationError e = (code e = JStr ''VALIDATION_ERROR'' \<and> validationErrors e \<noteq> None)"

definition getValidationMessages :: "ApiServiceError \<Rightarrow> string list" where
  "getValidationMessages e =
     (case validationErrors e of
        None \<Rightarrow> []
      | Some ves \<Rightarrow> map (\<lambda>error. field error @ '': '' @ message error) ves)"

datatype thrown =
    Thrown_ApiServiceError ApiServiceError
  | Thrown_Error js_error
  | Thrown_value jsval

text \<open>A native error stored under \<^verbatim>\<open>details\<close> is represented by its name and message.\<close>

definition error_object :: "js_error \<Rightarrow> jsval" where
  "error_object e = JObj [(''name'', JStr (error_name e)), (''message'', JStr (error_text e))]"

text \<open>\<^verbatim>\<open>errors.map(e => `${e.field}: ${e.message}`).join(', ')\<close>\<close>

definition format_errors :: "ValidationError list \<Rightarrow> string" where
  "format_errors errors = join '', '' (map (\<lambda>e. field e @ '': '' @ message e) errors)"

section \<open>Request builders (\<^verbatim>\<open>lib/types.ts\<close>)\<close>

text \<open>The assignment \<^verbatim>\<open>obj.k = v\<close> on an object.\<close>

fun set_prop :: "jsval \<Rightarrow> string \<Rightarrow> jsval \<Rightarrow> jsval" where
  "set_prop (JObj kvs) k v = JObj (AList.update k v kvs)"
| "set_prop obj k v = obj"

text \<open>
  The builder's parameters have the types of its signature: four strings, four optional
  strings and an optional number (\<open>None\<close> for an omitted argument).
\<close>

definition createImageGenerationRequest ::
  "string \<Rightarrow> string \<Rightarrow> string \<Rightarrow> string \<Rightarrow> string option \<Rightarrow> string option \<Rightarrow> string option
   \<Rightarrow> string option \<Rightarrow> jsnum option \<Rightarrow> thrown + jsval" where
  "createImageGenerationRequest prompt ratio resolution style contentType colorTone lighting
       composition numImages =
     (let request = JObj [(''prompt'', JStr prompt), (''ratio'', JStr ratio),
                          (''resolution'', JStr resolution), (''style'', JStr style)];
          request = (case contentType of
                       Some c \<Rightarrow> if c \<noteq> [] \<and> c \<noteq> ''none''
                                 then set_prop request ''contentType'' (JStr c) else request
                     | None \<Rightarrow> request);
          request = (case colorTone of
                       Some c \<Rightarrow> if c \<noteq> [] \<and> c \<noteq> ''none''
                                 then set_prop request ''colorTone'' (JStr c) else request
                     | None \<Rightarrow> request);
          request = (case lighting of
                       Some c \<Rightarrow> if c \<noteq> [] \<and> c \<noteq> ''none''
                                 then set_prop request ''lighting'' (JStr c) else request
                     | None \<Rightarrow> request);
          request = (case composition of
                       Some c \<Rightarrow> if c \<noteq> [] \<and> c \<noteq> ''none''
                                 then set_prop request ''composition'' (JStr c) else request
                     | None \<Rightarrow> request);
          request = (case numImages of
                       Some n \<Rightarrow> set_prop request ''numImages'' (JNum n)
                     | None \<Rightarrow> request);
          errors = validateImageGenerationRequest request
      in if length errors > 0
         then Inl (Thrown_Error (JsError False ''Error'' (''Invalid request: '' @ format_errors errors)))
         else Inr request)"

definition createPromptRewriteRequest :: "string \<Rightarrow> thrown + jsval" where
  "createPromptRewriteRequest prompt =
     (let request = JObj [(''prompt'', JStr prompt)];
          errors = validatePromptRewriteRequest request
      in if length errors > 0
         then Inl (Thrown_Error
                (JsError False ''Error'' (''Invalid rewrite request: '' @ format_errors errors)))
         else Inr request)"

definition createImageEditRequest ::
  "string \<Rightarrow> string \<Rightarrow> string \<Rightarrow> jsnum option \<Rightarrow> thrown + jsval" where
  "createImageEditRequest prompt editMode maskMode numImages =
     (let request = JObj [(''prompt'', JStr prompt), (''editMode'', JStr editMode),
                          (''maskMode'', JStr maskMode)];
          request = (case numImages of
                       Some n \<Rightarrow> set_prop request ''numImages'' (JNum n)
                     | None \<Rightarrow> request);
          errors = validateImageEditRequest request
      in if length errors > 0
         then Inl (Thrown_Error
                (JsError False ''Error'' (''Invalid edit request: '' @ format_errors errors)))
         else Inr request)"

section \<open>Response validators (\<^verbatim>\<open>lib/types.ts\<close>)\<close>

text \<open>
  The two shapes of check the response validators repeat: a required non-empty string
  (\<^verbatim>\<open>!res.k || typeof res.k !== 'string'\<close>) and an optional field of a given type
  (\<^verbatim>\<open>res.k !== undefined && typeof res.k !== t\<close>).
\<close>

definition required_string :: "jsval \<Rightarrow> string \<Rightarrow> string \<Rightarrow> ValidationError list" where
  "required_string res k msg =
     (if \<not> truthy (get_prop res k) \<or> typeof (get_prop res k) \<noteq> ''string''
      then [\<lparr>field = k, message = msg, value' = get_prop res k\<rparr>] else [])"

definition optional_typed :: "jsval \<Rightarrow> string \<Rightarrow> string \<Rightarrow> string \<Rightarrow> ValidationError list" where
  "optional_typed res k t msg =
     (if get_prop res k \<noteq> JUndefined \<and> typeof (get_prop res k) \<noteq> t
      then [\<lparr>field = k, message = msg, value' = get_prop res k\<rparr>] else [])"

text \<open>The \<^verbatim>\<open>forEach\<close> over \<^verbatim>\<open>res.images\<close>, from a given index on.\<close>

fun validate_images :: "nat \<Rightarrow> jsval list \<Rightarrow> ValidationError list" where
  "validate_images index [] = []"
| "validate_images index (img # imgs) =
     (if typeof img \<noteq> ''string'' then
        [\<lparr>field = ''images['' @ string_of_nat index @ '']'',
          message = ''Each image must be a string'', value' = img\<rparr>]
      else if length (the_string img) = 0 then
        [\<lparr>field = ''images['' @ string_of_nat index @ '']'',
          message = ''Image string cannot be empty'', value' = img\<rparr>]
      else [])
     @ validate_images (Suc index) imgs"

definition validateImageGenerationResponse :: "jsval \<Rightarrow> ValidationError list" where
  "validateImageGenerationResponse response =
     (if \<not> truthy response \<or> typeof response \<noteq> ''object'' then
        [\<lparr>field = ''response'', message = ''Response must be an object'', value' = JUndefined\<rparr>]
      else
        let res = response;
            errors = (if typeof (get_prop res ''success'') \<noteq> ''boolean''
                      then [\<lparr>field = ''success'', message = ''Success field must be a boolean'',
                              value' = get_prop res ''success''\<rparr>]
                      else [])
        in if get_prop res ''success'' = JBool False then
             errors @ required_string res ''error'' ''Error message must be a string''
           else if get_prop res ''success'' = JBool True then
             errors
             @ (case get_prop res ''images'' of
                  JArr imgs \<Rightarrow> validate_images 0 imgs
                | other \<Rightarrow> [\<lparr>field = ''images'', message = ''Images must be an array'',
                              value' = other\<rparr>])
             @ optional_typed res ''message'' ''string'' ''Message must be a string''
             @ optional_typed res ''requestId'' ''string'' ''Request ID must be a string''
             @ optional_typed res ''model_used'' ''string'' ''Model used must be a string''
             @ optional_typed res ''enhanced_prompt'' ''string'' ''Enhanced prompt must be a string''
             @ optional_typed res ''expires_in_hours'' ''number'' ''Expires in hours must be a number''
             @ optional_typed res ''brand_guidelines_applied'' ''boolean''
                 ''Brand guidelines applied must be a boolean''
           else errors)"

definition validatePromptRewriteResponse :: "jsval \<Rightarrow> ValidationError list" where
  "validatePromptRewriteResponse response =
     (if \<not> truthy response \<or> typeof response \<noteq> ''object'' then
        [\<lparr>field = ''response'', message = ''Response must be an object'', value' = JUndefined\<rparr>]
      else
        let res = response;
            errors = (if typeof (get_prop res ''success'') \<noteq> ''boolean''
                      then [\<lparr>field = ''success'', message = ''Success field must be a boolean'',
                              value' = get_prop res ''success''\<rparr>]
                      else [])
        in if get_prop res ''success'' = JBool False then
             errors @ required_string res ''error'' ''Error message must be a string''
           else if get_prop res ''success'' = JBool True then
             errors
             @ required_string res ''original_prompt'' ''Original prompt must be a string''
             @ required_string res ''enhanced_prompt'' ''Enhanced prompt must be a string''
             @ required_string res ''message'' ''Message must be a string''
             @ optional_typed res ''warning'' ''string'' ''Warning must be a string''
           else errors)"

text \<open>\<^verbatim>\<open>isApiError(response)\<close>: \<^verbatim>\<open>!response.success\<close>.\<close>

definition isApiError :: "jsval \<Rightarrow> bool" where
  "isApiError response = (\<not> truthy (get_prop response ''success''))"

section \<open>Browser state and the network (\<^verbatim>\<open>lib/api.ts\<close>)\<close>

text \<open>
  What the API module reads and writes outside itself: the cookie jar (\<^verbatim>\<open>js-cookie\<close>),
  the assignments made to \<^verbatim>\<open>window.location.href\<close> (oldest first), the requests
  handed to \<^verbatim>\<open>fetch\<close> (oldest first) and the pending timers. Console output and
  the abort listeners are not modelled. The signal handed to \<^verbatim>\<open>fetch\<close> is not part of
  the request record: what it can do to a request in flight, a rejection with an
  \<^verbatim>\<open>AbortError\<close>, is one of the outcomes the network may give.
\<close>

record FetchRequest =
  url :: string
  http_method :: string
  headers :: "(string \<times> string) list"
  body :: jsval

text \<open>
  A \<^verbatim>\<open>Response\<close>: its status, status text and what \<^verbatim>\<open>response.json()\<close> settles
  to (the parsed body, or the error of a body that is not JSON).
\<close>

record Response =
  status :: nat
  statusText :: string
  json :: "js_error + jsval"

definition ok :: "Response \<Rightarrow> bool" where
  "ok response = (200 \<le> status response \<and> status response \<le> 299)"

record Browser =
  cookies :: "(string \<times> string) list"
  href_assignments :: "string list"
  requests :: "FetchRequest list"
  timers :: "nat list"
  next_timer :: nat

text \<open>
  The outcome of a \<^verbatim>\<open>fetch\<close> is decided by the network: a response, or a rejection
  (a \<^verbatim>\<open>TypeError\<close> when the server is unreachable, an \<^verbatim>\<open>AbortError\<close> when the
  signal fires while the request is in flight).
\<close>

type_synonym network = "FetchRequest \<Rightarrow> thrown + Response"

definition fetch :: "network \<Rightarrow> Browser \<Rightarrow> FetchRequest \<Rightarrow> Browser \<times> (thrown + Response)" where
  "fetch net st request = (st\<lparr>requests := requests st @ [request]\<rparr>, net request)"

definition Cookies_get :: "Browser \<Rightarrow> string \<Rightarrow> string option" where
  "Cookies_get st k = map_of (cookies st) k"

definition Cookies_remove :: "Browser \<Rightarrow> string \<Rightarrow> Browser" where
  "Cookies_remove st k = st\<lparr>cookies := filter (\<lambda>kv. fst kv \<noteq> k) (cookies st)\<rparr>"

definition setTimeout :: "Browser \<Rightarrow> Browser \<times> nat" where
  "setTimeout st =
     (st\<lparr>timers := timers st @ [next_timer st], next_timer := Suc (next_timer st)\<rparr>,
      next_timer st)"

definition clearTimeout :: "Browser \<Rightarrow> nat \<Rightarrow> Browser" where
  "clearTimeout st timeoutId = st\<lparr>timers := removeAll timeoutId (timers st)\<rparr>"

record AbortSignal =
  aborted :: bool

definition BASE_URL :: string where
  "BASE_URL = ''http://ceatapi.demodevelopment.com''"

definition getAuthHeaders :: "Browser \<Rightarrow> (string \<times> string) list" where
  "getAuthHeaders st =
     (let token = Cookies_get st ''auth_token'';
          hdrs = [(''Content-Type'', ''application/json'')]
      in case token of
           Some t \<Rightarrow> if t \<noteq> [] then AList.update ''Authorization'' (''Bearer '' @ t) hdrs else hdrs
         | None \<Rightarrow> hdrs)"

definition handleAuthError :: "Browser \<Rightarrow> Browser" where
  "handleAuthError st =
     (let st1 = Cookies_remove st ''auth_token''
      in st1\<lparr>href_assignments := href_assignments st1 @ [''/'']\<rparr>)"

text \<open>
  \<^verbatim>\<open>authenticatedFetch(url, options)\<close>; \<open>options\<close> carries the method, the body and
  the caller's own headers (none in this module), which override the auth headers.
\<close>

definition authenticatedFetch ::
  "network \<Rightarrow> Browser \<Rightarrow> string \<Rightarrow> FetchRequest \<Rightarrow> Browser \<times> (thrown + Response)" where
  "authenticatedFetch net st u options =
     (let authHeaders = getAuthHeaders st;
          (st1, r) = fetch net st
             (options\<lparr>url := u,
                       headers := fold (\<lambda>kv h. AList.update (fst kv) (snd kv) h)
                                       (headers options) authHeaders\<rparr>)
      in case r of
           Inl e \<Rightarrow> (st1, Inl e)
         | Inr response \<Rightarrow>
             if status response = 401 then
               (handleAuthError st1,
                Inl (Thrown_ApiServiceError
                  (new_ApiServiceError (JStr ''Authentication required'') (JStr ''HTTP_401'')
                     JUndefined None)))
             else (st1, Inr response))"

section \<open>\<^verbatim>\<open>ImageGenerationAPI\<close>\<close>

text \<open>\<^verbatim>\<open>validateRequest\<close>: the error it throws, if any.\<close>

definition validateRequest :: "jsval \<Rightarrow> ApiServiceError option" where
  "validateRequest request =
     (let validationErrors = validateImageGenerationRequest request
      in if length validationErrors > 0 then
           Some (new_ApiServiceError
                   (JStr (''Request validation failed: '' @ format_errors validationErrors))
                   (JStr ''VALIDATION_ERROR'') (JObj [(''request'', request)])
                   (Some validationErrors))
         else None)"

definition validateRewriteRequest :: "jsval \<Rightarrow> ApiServiceError option" where
  "validateRewriteRequest request =
     (let validationErrors = validatePromptRewriteRequest request
      in if length validationErrors > 0 then
           Some (new_ApiServiceError
                   (JStr (''Rewrite request validation failed: '' @ format_errors validationErrors))
                   (JStr ''VALIDATION_ERROR'') (JObj [(''request'', request)])
                   (Some validationErrors))
         else None)"

definition validCodes :: "string list" where
  "validCodes = [''NETWORK_ERROR'', ''REQUEST_CANCELLED'',
     ''HTTP_400'', ''HTTP_401'', ''HTTP_403'', ''HTTP_404'', ''HTTP_429'',
     ''HTTP_500'', ''HTTP_502'', ''HTTP_503'', ''HTTP_504'',
     ''INVALID_PROMPT'', ''INVALID_RATIO'', ''INVALID_RESOLUTION'', ''INVALID_STYLE'',
     ''PARSE_ERROR'', ''INVALID_RESPONSE'', ''API_ERROR'', ''UNKNOWN_ERROR'', ''VALIDATION_ERROR'']"

text \<open>\<^verbatim>\<open>handleHttpError\<close> always throws; the model returns the error thrown.\<close>

definition handleHttpError :: "Response \<Rightarrow> ApiServiceError" where
  "handleHttpError response =
     (let errorMessage = JStr (''HTTP '' @ string_of_nat (status response) @ '': ''
                               @ statusText response);
          errorCode = JStr (''HTTP_'' @ string_of_nat (status response))
      in case json response of
           Inr errorData \<Rightarrow>
             if truthy errorData \<and> typeof errorData = ''object'' then
               new_ApiServiceError
                 (if has_prop errorData ''error''
                     \<and> typeof (get_prop errorData ''error'') = ''string''
                  then get_prop errorData ''error'' else errorMessage)
                 (if has_prop errorData ''code''
                     \<and> typeof (get_prop errorData ''code'') = ''string''
                     \<and> the_string (get_prop errorData ''code'') \<in> set validCodes
                  then get_prop errorData ''code'' else errorCode)
                 errorData None
             else new_ApiServiceError errorMessage errorCode JUndefined None
         | Inl parseError \<Rightarrow>
             new_ApiServiceError errorMessage errorCode
               (JObj [(''parseError'', error_object parseError),
                      (''originalResponse'', JStr (statusText response))])
               None)"

definition parseResponse :: "Response \<Rightarrow> ApiServiceError + jsval" where
  "parseResponse response =
     (case json response of
        Inr data \<Rightarrow> Inr data
      | Inl error \<Rightarrow>
          Inl (new_ApiServiceError (JStr ''Failed to parse response as JSON'') (JStr ''PARSE_ERROR'')
                 (JObj [(''originalError'', error_object error)]) None))"

text \<open>\<^verbatim>\<open>validateResponse\<close>: the error it throws, if any.\<close>

definition validateResponse :: "jsval \<Rightarrow> ApiServiceError option" where
  "validateResponse data =
     (let validationErrors = validateImageGenerationResponse data
      in if length validationErrors > 0 then
           Some (new_ApiServiceError
                   (JStr (''Response validation failed: '' @ format_errors validationErrors))
                   (JStr ''INVALID_RESPONSE'') (JObj [(''response'', data)])
                   (Some validationErrors))
         else if isApiError data then
           Some (new_ApiServiceError
                   (js_or (get_prop data ''error'') (JStr ''Unknown API error''))
                   (js_or (get_prop data ''code'') (JStr ''API_ERROR''))
                   (get_prop data ''details'') None)
         else None)"

definition validateRewriteResponse :: "jsval \<Rightarrow> ApiServiceError option" where
  "validateRewriteResponse data =
     (let validationErrors = validatePromptRewriteResponse data
      in if length validationErrors > 0 then
           Some (new_ApiServiceError
                   (JStr (''Rewrite response validation failed: '' @ format_errors validationErrors))
                   (JStr ''INVALID_RESPONSE'') (JObj [(''response'', data)])
                   (Some validationErrors))
         else
           let response = data
           in if truthy response \<and> typeof response = ''object''
                 \<and> get_prop response ''success'' = JBool False then
                Some (new_ApiServiceError
                        (js_or (get_prop response ''error'') (JStr ''Unknown API error''))
                        (js_or (get_prop response ''code'') (JStr ''API_ERROR''))
                        (get_prop response ''details'') None)
              else None)"

definition handleApiError :: "thrown \<Rightarrow> ApiServiceError" where
  "handleApiError error =
     (case error of
        Thrown_ApiServiceError e \<Rightarrow> e
      | Thrown_Error e \<Rightarrow>
          if error_name e = ''AbortError'' then
            new_ApiServiceError (JStr ''Request was cancelled or timed out'')
              (JStr ''REQUEST_CANCELLED'') (JObj [(''originalError'', error_object e)]) None
          else if is_TypeError e then
            new_ApiServiceError (JStr ''Network error: Unable to connect to the server'')
              (JStr ''NETWORK_ERROR'') (JObj [(''originalError'', error_object e)]) None
          else
            new_ApiServiceError (JStr (''Unexpected error: '' @ error_text e))
              (JStr ''UNKNOWN_ERROR'') (JObj [(''originalError'', error_object e)]) None
      | Thrown_value v \<Rightarrow>
          new_ApiServiceError (JStr ''An unknown error occurred'') (JStr ''UNKNOWN_ERROR'')
            (JObj [(''originalError'', v)]) None)"

text \<open>
  The body of the \<^verbatim>\<open>try\<close> block of \<^verbatim>\<open>generateImages\<close>: everything thrown here is
  caught by the \<^verbatim>\<open>catch\<close> clause of the caller below.
\<close>

definition generateImages_try ::
  "network \<Rightarrow> Browser \<Rightarrow> jsval \<Rightarrow> nat \<Rightarrow> Browser \<times> (thrown + jsval)" where
  "generateImages_try net st request timeoutId =
     (let (st1, r) = authenticatedFetch net st (BASE_URL @ ''/api/image/generate'')
                       \<lparr>url = [], http_method = ''POST'', headers = [], body = request\<rparr>
      in case r of
           Inl e \<Rightarrow> (st1, Inl e)
         | Inr response \<Rightarrow>
             let st2 = clearTimeout st1 timeoutId
             in if \<not> ok response then
                  (st2, Inl (Thrown_ApiServiceError (handleHttpError response)))
                else
                  (case parseResponse response of
                     Inl e \<Rightarrow> (st2, Inl (Thrown_ApiServiceError e))
                   | Inr data \<Rightarrow>
                       (case validateResponse data of
                          Some e \<Rightarrow> (st2, Inl (Thrown_ApiServiceError e))
                        | None \<Rightarrow> (st2, Inr data))))"

text \<open>
  \<^verbatim>\<open>generateImages(request, signal)\<close> on the default instance. The request check and the
  check of an already aborted signal stand before the \<^verbatim>\<open>try\<close> block, so what they throw
  leaves the function as it is; what the \<^verbatim>\<open>try\<close> block throws passes through
  \<^verbatim>\<open>handleApiError\<close>.
\<close>

definition generateImages ::
  "network \<Rightarrow> Browser \<Rightarrow> jsval \<Rightarrow> AbortSignal option \<Rightarrow> Browser \<times> (thrown + jsval)" where
  "generateImages net st request signal =
     (case validateRequest request of
        Some e \<Rightarrow> (st, Inl (Thrown_ApiServiceError e))
      | None \<Rightarrow>
          let (st1, timeoutId) = setTimeout st
          in if (case signal of Some s \<Rightarrow> aborted s | None \<Rightarrow> False) then
               (clearTimeout st1 timeoutId,
                Inl (Thrown_Error (JsError False ''Error'' ''Request was already cancelled'')))
             else
               (case generateImages_try net st1 request timeoutId of
                  (st2, Inl error) \<Rightarrow>
                    (clearTimeout st2 timeoutId, Inl (Thrown_ApiServiceError (handleApiError error)))
                | (st2, Inr data) \<Rightarrow> (st2, Inr data)))"

definition rewritePrompt_try ::
  "network \<Rightarrow> Browser \<Rightarrow> jsval \<Rightarrow> nat \<Rightarrow> Browser \<times> (thrown + jsval)" where
  "rewritePrompt_try net st request timeoutId =
     (let (st1, r) = authenticatedFetch net st (BASE_URL @ ''/api/rewrite'')
                       \<lparr>url = [], http_method = ''POST'', headers = [], body = request\<rparr>
      in case r of
           Inl e \<Rightarrow> (st1, Inl e)
         | Inr response \<Rightarrow>
             let st2 = clearTimeout st1 timeoutId
             in if \<not> ok response then
                  (st2, Inl (Thrown_ApiServiceError (handleHttpError response)))
                else
                  (case parseResponse response of
                     Inl e \<Rightarrow> (st2, Inl (Thrown_ApiServiceError e))
                   | Inr data \<Rightarrow>
                       (case validateRewriteResponse data of
                          Some e \<Rightarrow> (st2, Inl (Thrown_ApiServiceError e))
                        | None \<Rightarrow> (st2, Inr data))))"

definition rewritePrompt ::
  "network \<Rightarrow> Browser \<Rightarrow> jsval \<Rightarrow> AbortSignal option \<Rightarrow> Browser \<times> (thrown + jsval)" where
  "rewritePrompt net st request signal =
     (case validateRewriteRequest request of
        Some e \<Rightarrow> (st, Inl (Thrown_ApiServiceError e))
      | None \<Rightarrow>
          let (st1, timeoutId) = setTimeout st
          in if (case signal of Some s \<Rightarrow> aborted s | None \<Rightarrow> False) then
               (clearTimeout st1 timeoutId,
                Inl (Thrown_Error (JsError False ''Error'' ''Request was already cancelled'')))
             else
               (case rewritePrompt_try net st1 request timeoutId of
                  (st2, Inl error) \<Rightarrow>
                    (clearTimeout st2 timeoutId, Inl (Thrown_ApiServiceError (handleApiError error)))
                | (st2, Inr data) \<Rightarrow> (st2, Inr data)))"

section \<open>\<^verbatim>\<open>generateVideo\<close>\<close>

text \<open>
  \<^verbatim>\<open>errorData.k\<close> where \<^verbatim>\<open>errorData\<close> is whatever the error body parsed to: the
  read throws a \<^verbatim>\<open>TypeError\<close> on \<^verbatim>\<open>null\<close> (its message is the engine's).
\<close>

definition read_prop :: "jsval \<Rightarrow> string \<Rightarrow> js_error + jsval" where
  "read_prop v k =
     (if v = JNull \<or> v = JUndefined
      then Inl (JsError True ''TypeError'' (''Cannot read properties of null (reading '' @ k @ '')''))
      else Inr (get_prop v k))"

definition generateVideo_try :: "network \<Rightarrow> Browser \<Rightarrow> jsval \<Rightarrow> Browser \<times> (thrown + jsval)" where
  "generateVideo_try net st request =
     (let (st1, r) = authenticatedFetch net st (BASE_URL @ ''/api/video/generate'')
                       \<lparr>url = [], http_method = ''POST'', headers = [], body = request\<rparr>
      in case r of
           Inl e \<Rightarrow> (st1, Inl e)
         | Inr response \<Rightarrow>
             if \<not> ok response then
               (let errorData = (case json response of Inr d \<Rightarrow> d | Inl e \<Rightarrow> JObj [])
                in case read_prop errorData ''error'' of
                     Inl e \<Rightarrow> (st1, Inl (Thrown_Error e))
                   | Inr err \<Rightarrow>
                       (st1, Inl (Thrown_ApiServiceError
                          (new_ApiServiceError
                             (js_or err (JStr (''Video generation failed: ''
                                               @ string_of_nat (status response))))
                             (js_or (get_prop errorData ''code'') (JStr ''GENERATION_ERROR''))
                             JUndefined None))))
             else
               (case json response of
                  Inl e \<Rightarrow> (st1, Inl (Thrown_Error e))
                | Inr data \<Rightarrow> (st1, Inr data)))"

text \<open>
  \<^verbatim>\<open>generateVideo(request, signal)\<close>, whose signal goes to \<^verbatim>\<open>fetch\<close> only: the
  \<^verbatim>\<open>catch\<close> clause rethrows a typed service error and wraps anything else as
  \<^verbatim>\<open>NETWORK_ERROR\<close>. The parsed body of a 2xx response is returned as it is.
\<close>

definition generateVideo ::
  "network \<Rightarrow> Browser \<Rightarrow> jsval \<Rightarrow> Browser \<times> (thrown + jsval)" where
  "generateVideo net st request =
     (case generateVideo_try net st request of
        (st1, Inr data) \<Rightarrow> (st1, Inr data)
      | (st1, Inl error) \<Rightarrow>
          (case error of
             Thrown_ApiServiceError e \<Rightarrow> (st1, Inl (Thrown_ApiServiceError e))
           | Thrown_Error e \<Rightarrow>
               (st1, Inl (Thrown_ApiServiceError
                  (new_ApiServiceError (JStr ''Failed to generate video'') (JStr ''NETWORK_ERROR'')
                     (JObj [(''originalError'', error_object e)]) None)))
           | Thrown_value v \<Rightarrow>
               (st1, Inl (Thrown_ApiServiceError
                  (new_ApiServiceError (JStr ''Failed to generate video'') (JStr ''NETWORK_ERROR'')
                     (JObj [(''originalError'', v)]) None)))))"

section \<open>Properties stated about the code\<close>

subsection \<open>Field constraints, as the specification words them\<close>

definition is_object :: "jsval \<Rightarrow> bool" where
  "is_object c = (truthy c \<and> typeof c = ''object'')"

definition is_member :: "jsval \<Rightarrow> string list \<Rightarrow> bool" where
  "is_member v options = (typeof v = ''string'' \<and> the_string v \<in> set options)"

definition absent_or_member :: "jsval \<Rightarrow> string list \<Rightarrow> bool" where
  "absent_or_member v options = (v = JUndefined \<or> is_member v options)"

definition absent_or_count :: "jsval \<Rightarrow> bool" where
  "absent_or_count v =
     (v = JUndefined \<or> v \<in> set [JNum (Fin 1), JNum (Fin 2), JNum (Fin 3), JNum (Fin 4)])"

text \<open>A prompt that is a string, non-empty once trimmed, of at most 2000 code units.\<close>

definition prompt_ok :: "jsval \<Rightarrow> bool" where
  "prompt_ok c =
     (typeof (get_prop c ''prompt'') = ''string''
      \<and> js_trim (the_string (get_prop c ''prompt'')) \<noteq> []
      \<and> length (the_string (get_prop c ''prompt'')) \<le> 2000)"

text \<open>Every field but the prompt satisfies its constraint.\<close>

definition other_fields_ok :: "jsval \<Rightarrow> bool" where
  "other_fields_ok c =
     (is_member (get_prop c ''ratio'') ASPECT_RATIOS
      \<and> is_member (get_prop c ''resolution'') RESOLUTIONS
      \<and> is_member (get_prop c ''style'') STYLES
      \<and> absent_or_member (get_prop c ''contentType'') CONTENT_TYPES
      \<and> absent_or_member (get_prop c ''colorTone'') COLOR_TONES
      \<and> absent_or_member (get_prop c ''lighting'') LIGHTING_OPTIONS
      \<and> absent_or_member (get_prop c ''composition'') COMPOSITION_OPTIONS
      \<and> absent_or_count (get_prop c ''numImages''))"

definition satisfies_constraints :: "jsval \<Rightarrow> bool" where
  "satisfies_constraints c = (is_object c \<and> prompt_ok c \<and> other_fields_ok c)"

text \<open>The fields the generation validator reads, and the field names of its errors, in order.\<close>

definition request_fields :: "string list" where
  "request_fields = [''prompt'', ''ratio'', ''resolution'', ''style'', ''contentType'',
     ''colorTone'', ''lighting'', ''composition'', ''numImages'']"

definition error_fields :: "string list" where
  "error_fields = ''request'' # request_fields"

text \<open>A block's errors: none, or one error on the field \<open>f\<close>.\<close>

definition at_most :: "string \<Rightarrow> ValidationError list \<Rightarrow> bool" where
  "at_most f es = (map field es = [] \<or> map field es = [f])"

subsection \<open>Outcomes of a call\<close>

text \<open>
  Relative to the state \<open>st\<close> before the call: the call failed with the typed error
  \<^verbatim>\<open>HTTP_401\<close>, the credential is gone, and \<^verbatim>\<open>window.location.href\<close> was assigned
  to once more, with the entry point.
\<close>

definition unauthorized_outcome :: "Browser \<Rightarrow> Browser \<times> (thrown + 'a) \<Rightarrow> bool" where
  "unauthorized_outcome st res =
     (snd res = Inl (Thrown_ApiServiceError
                  (new_ApiServiceError (JStr ''Authentication required'') (JStr ''HTTP_401'')
                     JUndefined None))
      \<and> Cookies_get (fst res) ''auth_token'' = None
      \<and> href_assignments (fst res) = href_assignments st @ [''/''])"

definition not_aborted :: "AbortSignal option \<Rightarrow> bool" where
  "not_aborted signal = (case signal of Some s \<Rightarrow> \<not> aborted s | None \<Rightarrow> True)"

text \<open>
  The service error for a body with \<^verbatim>\<open>success: false\<close>: the body's error as message, the
  body's code when it is truthy and \<^verbatim>\<open>API_ERROR\<close> otherwise, the body's details.
\<close>

definition api_error_of :: "jsval \<Rightarrow> ApiServiceError" where
  "api_error_of data =
     new_ApiServiceError (get_prop data ''error'')
       (if truthy (get_prop data ''code'') then get_prop data ''code'' else JStr ''API_ERROR'')
       (get_prop data ''details'') None"

text \<open>The request \<^verbatim>\<open>authenticatedFetch\<close> hands to \<^verbatim>\<open>fetch\<close>, and the state after sending it.\<close>

definition issued_request :: "Browser \<Rightarrow> string \<Rightarrow> FetchRequest \<Rightarrow> FetchRequest" where
  "issued_request st u options =
     options\<lparr>url := u,
              headers := fold (\<lambda>kv h. AList.update (fst kv) (snd kv) h)
                              (headers options) (getAuthHeaders st)\<rparr>"

definition sent :: "Browser \<Rightarrow> FetchRequest \<Rightarrow> Browser" where
  "sent st q = st\<lparr>requests := requests st @ [q]\<rparr>"

text \<open>A network that answers every request with the same response.\<close>

definition always :: "Response \<Rightarrow> network" where
  "always response = (\<lambda>q. Inr response)"

subsection \<open>Sample inputs\<close>

definition sample_request :: jsval where
  "sample_request =
     JObj [(''prompt'', JStr ''a cat''), (''ratio'', JStr ''1:1''),
           (''resolution'', JStr ''1024x1024''), (''style'', JStr ''realistic'')]"

definition full_request :: jsval where
  "full_request =
     JObj [(''prompt'', JStr ''a cat''), (''ratio'', JStr ''16:9''),
           (''resolution'', JStr ''2048x2048''), (''style'', JStr ''cartoon''),
           (''contentType'', JStr ''photo''), (''colorTone'', JStr ''golden''),
           (''lighting'', JStr ''studio light''), (''composition'', JStr ''closeup''),
           (''numImages'', JNum (Fin 2))]"

definition empty_prompt_request :: jsval where
  "empty_prompt_request =
     JObj [(''prompt'', JStr []), (''ratio'', JStr ''1:1''),
           (''resolution'', JStr ''1024x1024''), (''style'', JStr ''realistic'')]"

definition boundary_request :: "nat \<Rightarrow> jsval" where
  "boundary_request n =
     JObj [(''prompt'', JStr (replicate n CHR ''a'')), (''ratio'', JStr ''1:1''),
           (''resolution'', JStr ''1024x1024''), (''style'', JStr ''realistic'')]"

definition fractional_request :: jsval where
  "fractional_request =
     JObj [(''prompt'', JStr ''a cat''), (''ratio'', JStr ''1:1''),
           (''resolution'', JStr ''1024x1024''), (''style'', JStr ''realistic''),
           (''editMode'', JStr ''EDIT_MODE_BGSWAP''), (''maskMode'', JStr ''background''),
           (''numImages'', JNum (Fin (5 / 2)))]"


definition rewrite_request :: jsval where
  "rewrite_request = JObj [(''prompt'', JStr ''a cat'')]"

definition video_request :: jsval where
  "video_request = JObj [(''prompt'', JStr ''a cat''), (''duration'', JNum (Fin 8))]"

definition browser0 :: Browser where
  "browser0 = \<lparr>cookies = [(''auth_token'', ''secret'')], href_assignments = [],
                requests = [], timers = [], next_timer = 0\<rparr>"

definition quota_body :: jsval where
  "quota_body = JObj [(''success'', JBool False), (''error'', JStr ''quota exceeded''),
                      (''code'', JStr ''API_ERROR'')]"

definition quota_response :: Response where
  "quota_response = \<lparr>status = 200, statusText = ''OK'', json = Inr quota_body\<rparr>"

definition unauthorized_response :: Response where
  "unauthorized_response =
     \<lparr>status = 401, statusText = ''Unauthorized'',
      json = Inr (JObj [(''error'', JStr ''Token expired'')])\<rparr>"

section \<open>Request validation\<close>

subsection \<open>When a block reports nothing\<close>

lemma js_trim_Nil [simp]: "js_trim [] = []"
  by (simp add: js_trim_def)

lemma validate_prompt_Nil_iff: "validate_prompt c = [] \<longleftrightarrow> prompt_ok c"
  by (cases "get_prop c ''prompt''")
     (auto simp: validate_prompt_def prompt_ok_def Let_def)

lemma validate_ratio_Nil_iff:
  "validate_ratio c = [] \<longleftrightarrow> is_member (get_prop c ''ratio'') ASPECT_RATIOS"
  by (cases "get_prop c ''ratio''")
     (auto simp: validate_ratio_def is_member_def Let_def ASPECT_RATIOS_def)

lemma validate_resolution_Nil_iff:
  "validate_resolution c = [] \<longleftrightarrow> is_member (get_prop c ''resolution'') RESOLUTIONS"
  by (cases "get_prop c ''resolution''")
     (auto simp: validate_resolution_def is_member_def Let_def RESOLUTIONS_def)

lemma validate_style_Nil_iff:
  "validate_style c = [] \<longleftrightarrow> is_member (get_prop c ''style'') STYLES"
  by (cases "get_prop c ''style''")
     (auto simp: validate_style_def is_member_def Let_def STYLES_def)

lemma validate_contentType_Nil_iff:
  "validate_contentType c = [] \<longleftrightarrow> absent_or_member (get_prop c ''contentType'') CONTENT_TYPES"
  by (auto simp: validate_contentType_def absent_or_member_def is_member_def Let_def)

lemma validate_colorTone_Nil_iff:
  "validate_colorTone c = [] \<longleftrightarrow> absent_or_member (get_prop c ''colorTone'') COLOR_TONES"
  by (auto simp: validate_colorTone_def absent_or_member_def is_member_def Let_def)

lemma validate_lighting_Nil_iff:
  "validate_lighting c = [] \<longleftrightarrow> absent_or_member (get_prop c ''lighting'') LIGHTING_OPTIONS"
  by (auto simp: validate_lighting_def absent_or_member_def is_member_def Let_def)

lemma validate_composition_Nil_iff:
  "validate_composition c = [] \<longleftrightarrow>
     absent_or_member (get_prop c ''composition'') COMPOSITION_OPTIONS"
  by (auto simp: validate_composition_def absent_or_member_def is_member_def Let_def)

lemma num_images_includes_iff:
  "num_images_includes n \<longleftrightarrow> n \<in> {Fin 1, Fin 2, Fin 3, Fin 4}"
  by (auto simp: num_images_includes_def NUM_IMAGES_OPTIONS_def)

lemma validate_numImages_Nil_iff:
  "validate_numImages c = [] \<longleftrightarrow> absent_or_count (get_prop c ''numImages'')"
  by (cases "get_prop c ''numImages''")
     (auto simp: validate_numImages_def Let_def num_images_includes_iff absent_or_count_def)

lemma validate_rest_Nil:
  assumes "other_fields_ok c"
  shows "validate_ratio c @ validate_resolution c @ validate_style c
         @ validate_contentType c @ validate_colorTone c @ validate_lighting c
         @ validate_composition c @ validate_numImages c = []"
  using assms
  by (simp add: other_fields_ok_def validate_ratio_Nil_iff validate_resolution_Nil_iff
      validate_style_Nil_iff validate_contentType_Nil_iff validate_colorTone_Nil_iff
      validate_lighting_Nil_iff validate_composition_Nil_iff validate_numImages_Nil_iff)

lemma validateImageGenerationRequest_Nil_iff:
  "validateImageGenerationRequest c = [] \<longleftrightarrow> satisfies_constraints c"
  by (auto simp: validateImageGenerationRequest_def satisfies_constraints_def is_object_def
      other_fields_ok_def validate_prompt_Nil_iff validate_ratio_Nil_iff
      validate_resolution_Nil_iff validate_style_Nil_iff validate_contentType_Nil_iff
      validate_colorTone_Nil_iff validate_lighting_Nil_iff validate_composition_Nil_iff
      validate_numImages_Nil_iff)

lemma other_fields_ok_sample: "other_fields_ok sample_request"
  by (simp add: other_fields_ok_def sample_request_def is_member_def absent_or_member_def
      absent_or_count_def ASPECT_RATIOS_def RESOLUTIONS_def STYLES_def)

lemma in_set_dropWhile: "x \<in> set xs \<Longrightarrow> \<not> P x \<Longrightarrow> x \<in> set (dropWhile P xs)"
  by (induction xs) auto

lemma js_trim_nonempty:
  assumes "x \<in> set s" "\<not> is_js_whitespace x"
  shows "js_trim s \<noteq> []"
proof -
  have "x \<in> set (dropWhile is_js_whitespace s)"
    using assms by (simp add: in_set_dropWhile)
  then have "\<exists>y \<in> set (rev (dropWhile is_js_whitespace s)). \<not> is_js_whitespace y"
    using assms(2) by auto
  then show ?thesis
    unfolding js_trim_def by simp
qed

lemma js_trim_a_cat: "js_trim ''a cat'' = ''a cat''"
  by (simp add: js_trim_def is_js_whitespace_def)

lemma sample_request_valid: "validateImageGenerationRequest sample_request = []"
  unfolding validateImageGenerationRequest_Nil_iff satisfies_constraints_def
  using other_fields_ok_sample
  by (simp add: is_object_def prompt_ok_def sample_request_def js_trim_a_cat)

lemma rewrite_request_valid: "validatePromptRewriteRequest rewrite_request = []"
  by (simp add: validatePromptRewriteRequest_def rewrite_request_def validate_prompt_Nil_iff
      prompt_ok_def js_trim_a_cat)

subsection \<open>The empty prompt\<close>

text \<open>
  C4. The scenario request with \<^verbatim>\<open>prompt: ""\<close> gets exactly one error, on the field
  \<^verbatim>\<open>prompt\<close>. Its message is \<^verbatim>\<open>Prompt must be a string\<close>: the empty string is falsy,
  so the first test of the prompt block takes it, and the branch with the message
  \<^verbatim>\<open>Prompt cannot be empty\<close> is reached only by a non-empty string of white space.
\<close>

theorem empty_prompt_reported_as_not_a_string:
  "validateImageGenerationRequest empty_prompt_request =
     [\<lparr>field = ''prompt'', message = ''Prompt must be a string'', value' = JStr []\<rparr>]"
  by (simp add: validateImageGenerationRequest_def empty_prompt_request_def validate_prompt_def
      validate_ratio_def validate_resolution_def validate_style_def validate_contentType_def
      validate_colorTone_def validate_lighting_def validate_composition_def
      validate_numImages_def ASPECT_RATIOS_def RESOLUTIONS_def STYLES_def)

theorem empty_prompt_reported_as_not_a_string_witness:
  "map field (validateImageGenerationRequest empty_prompt_request) = [''prompt'']
   \<and> map message (validateImageGenerationRequest empty_prompt_request)
       = [''Prompt must be a string'']
   \<and> map message (validateImageGenerationRequest empty_prompt_request)
       \<noteq> [''Prompt cannot be empty'']"
  using empty_prompt_reported_as_not_a_string by simp

text \<open>The branch written for empty prompts is taken by a prompt of white space only.\<close>

lemma blank_prompt_cannot_be_empty:
  "validate_prompt (JObj [(''prompt'', JStr ''   '')]) =
     [\<lparr>field = ''prompt'', message = ''Prompt cannot be empty'', value' = JStr ''   ''\<rparr>]"
  by (simp add: validate_prompt_def js_trim_def is_js_whitespace_def)

subsection \<open>The image count\<close>

lemma at_most_prompt: "at_most ''prompt'' (validate_prompt c)"
  by (simp add: at_most_def validate_prompt_def Let_def)

lemma at_most_ratio: "at_most ''ratio'' (validate_ratio c)"
  by (simp add: at_most_def validate_ratio_def Let_def)

lemma at_most_resolution: "at_most ''resolution'' (validate_resolution c)"
  by (simp add: at_most_def validate_resolution_def Let_def)

lemma at_most_style: "at_most ''style'' (validate_style c)"
  by (simp add: at_most_def validate_style_def Let_def)

lemma at_most_contentType: "at_most ''contentType'' (validate_contentType c)"
  by (simp add: at_most_def validate_contentType_def Let_def)

lemma at_most_colorTone: "at_most ''colorTone'' (validate_colorTone c)"
  by (simp add: at_most_def validate_colorTone_def Let_def)

lemma at_most_lighting: "at_most ''lighting'' (validate_lighting c)"
  by (simp add: at_most_def validate_lighting_def Let_def)

lemma at_most_composition: "at_most ''composition'' (validate_composition c)"
  by (simp add: at_most_def validate_composition_def Let_def)

lemma at_most_numImages: "at_most ''numImages'' (validate_numImages c)"
  by (simp add: at_most_def validate_numImages_def Let_def)











subsection \<open>Fully valid requests\<close>

text \<open>
  C7. A candidate object in which every field satisfies its constraint (the prompt a
  string that is non-empty once trimmed and at most 2000 long; ratio, resolution and
  style members of their permitted sets; each optional field absent or a member of its
  permitted set) gets the empty error list. The validator is a total function of the
  candidate: no branch of it throws.
\<close>

theorem valid_request_has_no_errors:
  assumes "is_object c" and "prompt_ok c" and "other_fields_ok c"
  shows "validateImageGenerationRequest c = []"
  using assms by (simp add: validateImageGenerationRequest_Nil_iff satisfies_constraints_def)

theorem valid_request_has_no_errors_witness:
  "is_object full_request \<and> prompt_ok full_request \<and> other_fields_ok full_request
   \<and> validateImageGenerationRequest full_request = []"
proof -
  have o: "is_object full_request"
    by (simp add: is_object_def full_request_def)
  have p: "prompt_ok full_request"
    by (simp add: prompt_ok_def full_request_def js_trim_a_cat)
  have r: "other_fields_ok full_request"
    by (simp add: other_fields_ok_def full_request_def is_member_def absent_or_member_def
        absent_or_count_def ASPECT_RATIOS_def RESOLUTIONS_def STYLES_def CONTENT_TYPES_def
        COLOR_TONES_def LIGHTING_OPTIONS_def COMPOSITION_OPTIONS_def)
  show ?thesis
    using valid_request_has_no_errors [OF o p r] o p r by simp
qed

subsection \<open>Builders\<close>

text \<open>
  C8. Whenever \<^verbatim>\<open>createImageGenerationRequest\<close> returns a request instead of throwing,
  \<^verbatim>\<open>validateImageGenerationRequest\<close> finds no error in that request; likewise
  \<^verbatim>\<open>createPromptRewriteRequest\<close> and \<^verbatim>\<open>validatePromptRewriteRequest\<close>.
\<close>

theorem builder_roundtrip:
  "(createImageGenerationRequest prompt ratio resolution style contentType colorTone lighting
       composition numImages = Inr request
     \<longrightarrow> validateImageGenerationRequest request = [])
   \<and> (createPromptRewriteRequest prompt' = Inr request'
     \<longrightarrow> validatePromptRewriteRequest request' = [])"
  by (auto simp: createImageGenerationRequest_def createPromptRewriteRequest_def Let_def
      split: if_splits)

lemma createImageGenerationRequest_sample:
  "createImageGenerationRequest ''a cat'' ''1:1'' ''1024x1024'' ''realistic''
      (Some ''none'') None (Some []) None None = Inr sample_request"
proof -
  have "createImageGenerationRequest ''a cat'' ''1:1'' ''1024x1024'' ''realistic''
      (Some ''none'') None (Some []) None None =
      (if length (validateImageGenerationRequest sample_request) > 0
       then Inl (Thrown_Error (JsError False ''Error''
              (''Invalid request: '' @ format_errors (validateImageGenerationRequest sample_request))))
       else Inr sample_request)"
    by (simp add: createImageGenerationRequest_def sample_request_def Let_def)
  then show ?thesis
    by (simp add: sample_request_valid)
qed

lemma createPromptRewriteRequest_sample:
  "createPromptRewriteRequest ''a cat'' = Inr rewrite_request"
proof -
  have "createPromptRewriteRequest ''a cat'' =
      (if length (validatePromptRewriteRequest rewrite_request) > 0
       then Inl (Thrown_Error (JsError False ''Error''
              (''Invalid rewrite request: ''
               @ format_errors (validatePromptRewriteRequest rewrite_request))))
       else Inr rewrite_request)"
    by (simp add: createPromptRewriteRequest_def rewrite_request_def Let_def)
  then show ?thesis
    by (simp add: rewrite_request_valid)
qed

theorem builder_roundtrip_witness:
  "createImageGenerationRequest ''a cat'' ''1:1'' ''1024x1024'' ''realistic''
      (Some ''none'') None (Some []) None None = Inr sample_request
   \<and> validateImageGenerationRequest sample_request = []
   \<and> createPromptRewriteRequest ''a cat'' = Inr rewrite_request
   \<and> validatePromptRewriteRequest rewrite_request = []"
  using builder_roundtrip [of "''a cat''" "''1:1''" "''1024x1024''" "''realistic''"
      "Some ''none''" None "Some []" None None sample_request "''a cat''" rewrite_request]
    createImageGenerationRequest_sample createPromptRewriteRequest_sample
  by simp

subsection \<open>The length limit of the prompt\<close>

lemma validate_prompt_too_long:
  assumes "get_prop c ''prompt'' = JStr p" "js_trim p \<noteq> []" "length p > 2000"
  shows "validate_prompt c =
           [\<lparr>field = ''prompt'', message = ''Prompt must be less than 2000 characters'',
             value' = JStr p\<rparr>]"
  using assms by (auto simp: validate_prompt_def Let_def)

text \<open>
  C9. Let the candidate be an object whose prompt is a string \<open>p\<close>, non-empty once
  trimmed, and whose other fields are valid. If \<open>p\<close> has exactly 2000 code units the
  error list is empty; the list is empty exactly when \<open>p\<close> has at most 2000; and when
  \<open>p\<close> is longer the list is the single error on \<^verbatim>\<open>prompt\<close> whose message reads
  \<^verbatim>\<open>Prompt must be less than 2000 characters\<close>.
\<close>

theorem prompt_length_boundary:
  assumes "is_object c" and "get_prop c ''prompt'' = JStr p" and "js_trim p \<noteq> []"
    and "other_fields_ok c"
  shows "(length p = 2000 \<longrightarrow> validateImageGenerationRequest c = [])
       \<and> (validateImageGenerationRequest c = [] \<longleftrightarrow> length p \<le> 2000)
       \<and> (length p > 2000 \<longrightarrow> validateImageGenerationRequest c =
             [\<lparr>field = ''prompt'', message = ''Prompt must be less than 2000 characters'',
               value' = JStr p\<rparr>])"
proof -
  have eq: "validateImageGenerationRequest c = [] \<longleftrightarrow> length p \<le> 2000"
    using assms
    by (simp add: validateImageGenerationRequest_Nil_iff satisfies_constraints_def prompt_ok_def)
  have long: "validateImageGenerationRequest c =
             [\<lparr>field = ''prompt'', message = ''Prompt must be less than 2000 characters'',
               value' = JStr p\<rparr>]" if "length p > 2000"
  proof -
    have "validateImageGenerationRequest c =
            validate_prompt c
            @ (validate_ratio c @ validate_resolution c @ validate_style c
               @ validate_contentType c @ validate_colorTone c @ validate_lighting c
               @ validate_composition c @ validate_numImages c)"
      using assms(1) by (simp add: validateImageGenerationRequest_def is_object_def)
    then show ?thesis
      using validate_rest_Nil [OF assms(4)] validate_prompt_too_long [OF assms(2,3) that]
      by simp
  qed
  show ?thesis using eq long by simp
qed

theorem prompt_length_boundary_witness:
  "validateImageGenerationRequest (boundary_request 2000) = []
   \<and> validateImageGenerationRequest (boundary_request 2001) =
        [\<lparr>field = ''prompt'', message = ''Prompt must be less than 2000 characters'',
          value' = JStr (replicate 2001 CHR ''a'')\<rparr>]"
proof -
  have obj: "is_object (boundary_request n)" for n
    by (simp add: is_object_def boundary_request_def)
  have p: "get_prop (boundary_request n) ''prompt'' = JStr (replicate n CHR ''a'')" for n
    by (simp add: boundary_request_def)
  have t: "js_trim (replicate n CHR ''a'') \<noteq> []" if "0 < n" for n
    by (rule js_trim_nonempty [of "CHR ''a''"]) (use that in \<open>simp_all add: is_js_whitespace_def\<close>)
  have rest: "other_fields_ok (boundary_request n)" for n
    by (simp add: other_fields_ok_def boundary_request_def is_member_def absent_or_member_def
        absent_or_count_def ASPECT_RATIOS_def RESOLUTIONS_def STYLES_def)
  show ?thesis
    using prompt_length_boundary [OF obj p t rest, of 2000]
          prompt_length_boundary [OF obj p t rest, of 2001]
    by simp
qed

subsection \<open>The shape of the error list\<close>

lemma subseq_at_most:
  assumes "at_most f es" "subseq (map field rest) fs"
  shows "subseq (map field (es @ rest)) (f # fs)"
  using assms by (auto simp: at_most_def)

lemma subseq_blocks:
  "subseq (map field (validate_prompt c @ validate_ratio c @ validate_resolution c
        @ validate_style c @ validate_contentType c @ validate_colorTone c
        @ validate_lighting c @ validate_composition c
        @ validate_numImages c)) request_fields"
  unfolding request_fields_def
  apply (rule subseq_at_most [OF at_most_prompt])
  apply (rule subseq_at_most [OF at_most_ratio])
  apply (rule subseq_at_most [OF at_most_resolution])
  apply (rule subseq_at_most [OF at_most_style])
  apply (rule subseq_at_most [OF at_most_contentType])
  apply (rule subseq_at_most [OF at_most_colorTone])
  apply (rule subseq_at_most [OF at_most_lighting])
  apply (rule subseq_at_most [OF at_most_composition])
  using at_most_numImages [of c] apply (auto simp: at_most_def)
  done

lemma subseq_error_fields:
  "subseq (map field (validateImageGenerationRequest c)) error_fields"
proof (cases "is_object c")
  case True
  then show ?thesis
    using subseq_blocks [of c]
    by (simp add: validateImageGenerationRequest_def is_object_def error_fields_def
        subseq_drop_many [of _ _ "[''request'']", simplified] del: map_append)
next
  case False
  then show ?thesis
    by (auto simp: validateImageGenerationRequest_def is_object_def error_fields_def)
qed

lemma distinct_error_fields: "distinct error_fields"
  by (simp add: error_fields_def request_fields_def)

lemma blocks_depend_on_fields:
  assumes "\<forall>k \<in> set request_fields. get_prop c k = get_prop c' k"
  shows "validate_prompt c = validate_prompt c'" "validate_ratio c = validate_ratio c'"
    "validate_resolution c = validate_resolution c'" "validate_style c = validate_style c'"
    "validate_contentType c = validate_contentType c'"
    "validate_colorTone c = validate_colorTone c'"
    "validate_lighting c = validate_lighting c'"
    "validate_composition c = validate_composition c'"
    "validate_numImages c = validate_numImages c'"
  using assms
  by (simp_all add: request_fields_def validate_prompt_def validate_ratio_def
      validate_resolution_def validate_style_def validate_contentType_def validate_colorTone_def
      validate_lighting_def validate_composition_def validate_numImages_def)

text \<open>
  C10. For every candidate, the field names of the errors of
  \<^verbatim>\<open>validateImageGenerationRequest\<close> form a subsequence of request, prompt, ratio,
  resolution, style, contentType, colorTone, lighting, composition, numImages: they
  belong to that set, come in that order, and no field occurs twice. Two object
  candidates that agree on the nine request fields get the same error list, so a field
  outside the set never produces an error.
\<close>

theorem error_list_shape:
  "subseq (map field (validateImageGenerationRequest c)) error_fields
   \<and> distinct (map field (validateImageGenerationRequest c))
   \<and> set (map field (validateImageGenerationRequest c)) \<subseteq> set error_fields
   \<and> (is_object a \<and> is_object b
        \<and> (\<forall>k \<in> set request_fields. get_prop a k = get_prop b k)
      \<longrightarrow> validateImageGenerationRequest a = validateImageGenerationRequest b)"
proof -
  have s: "subseq (map field (validateImageGenerationRequest c)) error_fields"
    by (rule subseq_error_fields)
  then obtain N where N: "map field (validateImageGenerationRequest c) = nths error_fields N"
    by (auto simp: subseq_conv_nths)
  have d: "distinct (map field (validateImageGenerationRequest c))"
    unfolding N using distinct_error_fields by (rule distinct_nthsI)
  have m: "set (map field (validateImageGenerationRequest c)) \<subseteq> set error_fields"
    unfolding N by (rule set_nths_subset)
  have e: "validateImageGenerationRequest a = validateImageGenerationRequest b"
    if "is_object a" "is_object b"
      and "\<forall>k \<in> set request_fields. get_prop a k = get_prop b k"
    using blocks_depend_on_fields [OF that(3)] that(1,2)
    by (simp add: validateImageGenerationRequest_def is_object_def)
  show ?thesis using s d m e by blast
qed

theorem error_list_shape_witness:
  "map field (validateImageGenerationRequest fractional_request) = [''numImages'']
   \<and> subseq [''numImages''] error_fields
   \<and> validateImageGenerationRequest
       (JObj [(''tracking'', JStr ''abc''), (''prompt'', JNum (Fin 7)), (''ratio'', JStr ''21:9'')])
     = validateImageGenerationRequest (JObj [(''prompt'', JNum (Fin 7)), (''ratio'', JStr ''21:9'')])"
proof -
  have f: "map field (validateImageGenerationRequest fractional_request) = [''numImages'']"
    by (simp add: validateImageGenerationRequest_def fractional_request_def validate_prompt_def
        validate_ratio_def validate_resolution_def validate_style_def validate_contentType_def
        validate_colorTone_def validate_lighting_def validate_composition_def
        validate_numImages_def ASPECT_RATIOS_def RESOLUTIONS_def STYLES_def js_trim_def
        is_js_whitespace_def num_images_includes_iff)
  have agree: "is_object (JObj [(''tracking'', JStr ''abc''), (''prompt'', JNum (Fin 7)),
                               (''ratio'', JStr ''21:9'')])
     \<and> is_object (JObj [(''prompt'', JNum (Fin 7)), (''ratio'', JStr ''21:9'')])
     \<and> (\<forall>k \<in> set request_fields.
           get_prop (JObj [(''tracking'', JStr ''abc''), (''prompt'', JNum (Fin 7)),
                           (''ratio'', JStr ''21:9'')]) k
           = get_prop (JObj [(''prompt'', JNum (Fin 7)), (''ratio'', JStr ''21:9'')]) k)"
    by (simp add: is_object_def request_fields_def)
  show ?thesis
    using error_list_shape [of fractional_request
        "JObj [(''tracking'', JStr ''abc''), (''prompt'', JNum (Fin 7)), (''ratio'', JStr ''21:9'')]"
        "JObj [(''prompt'', JNum (Fin 7)), (''ratio'', JStr ''21:9'')]"] f agree
    by simp
qed

section \<open>The typed service error\<close>

lemma handleApiError_typed [simp]: "handleApiError (Thrown_ApiServiceError e) = e"
  by (simp add: handleApiError_def)




section \<open>The HTTP exchange\<close>

lemma map_of_filter_removed: "map_of (filter (\<lambda>kv. fst kv \<noteq> k) xs) k = None"
  by (induction xs) auto

lemma Cookies_get_handleAuthError [simp]:
  "Cookies_get (handleAuthError st) ''auth_token'' = None"
  by (simp add: Cookies_get_def handleAuthError_def Cookies_remove_def map_of_filter_removed)

lemma href_handleAuthError [simp]:
  "href_assignments (handleAuthError st) = href_assignments st @ [''/'']"
  by (simp add: handleAuthError_def Cookies_remove_def)

lemma requests_handleAuthError [simp]:
  "requests (handleAuthError st) = requests st"
  by (simp add: handleAuthError_def Cookies_remove_def)

lemma clearTimeout_others [simp]:
  "Cookies_get (clearTimeout st i) k = Cookies_get st k"
  "href_assignments (clearTimeout st i) = href_assignments st"
  "requests (clearTimeout st i) = requests st"
  by (simp_all add: clearTimeout_def Cookies_get_def)

lemma setTimeout_others [simp]:
  "Cookies_get (fst (setTimeout st)) k = Cookies_get st k"
  "href_assignments (fst (setTimeout st)) = href_assignments st"
  "requests (fst (setTimeout st)) = requests st"
  by (simp_all add: setTimeout_def Cookies_get_def)

lemma sent_others [simp]:
  "Cookies_get (sent st q) k = Cookies_get st k"
  "href_assignments (sent st q) = href_assignments st"
  "requests (sent st q) = requests st @ [q]"
  by (simp_all add: sent_def Cookies_get_def)

lemma authenticatedFetch_401:
  assumes "\<forall>q. net q = Inr response" "status response = 401"
  shows "authenticatedFetch net st u options =
           (handleAuthError (sent st (issued_request st u options)),
            Inl (Thrown_ApiServiceError
                  (new_ApiServiceError (JStr ''Authentication required'') (JStr ''HTTP_401'')
                     JUndefined None)))"
  using assms by (simp add: authenticatedFetch_def fetch_def Let_def issued_request_def sent_def)

lemma authenticatedFetch_response:
  assumes "\<forall>q. net q = Inr response" "status response \<noteq> 401"
  shows "authenticatedFetch net st u options =
           (sent st (issued_request st u options), Inr response)"
  using assms by (simp add: authenticatedFetch_def fetch_def Let_def issued_request_def sent_def)

lemma validateRequest_None:
  "validateImageGenerationRequest r = [] \<Longrightarrow> validateRequest r = None"
  by (simp add: validateRequest_def)

lemma validateRewriteRequest_None:
  "validatePromptRewriteRequest r = [] \<Longrightarrow> validateRewriteRequest r = None"
  by (simp add: validateRewriteRequest_def)

lemma generateImages_started:
  assumes "validateImageGenerationRequest request = []" "not_aborted signal"
  shows "generateImages net st request signal =
     (case generateImages_try net (fst (setTimeout st)) request (snd (setTimeout st)) of
        (st2, Inl error) \<Rightarrow>
          (clearTimeout st2 (snd (setTimeout st)),
           Inl (Thrown_ApiServiceError (handleApiError error)))
      | (st2, Inr data) \<Rightarrow> (st2, Inr data))"
  using assms
  by (cases signal)
     (simp_all add: generateImages_def validateRequest_None not_aborted_def split_beta)

lemma rewritePrompt_started:
  assumes "validatePromptRewriteRequest request = []" "not_aborted signal"
  shows "rewritePrompt net st request signal =
     (case rewritePrompt_try net (fst (setTimeout st)) request (snd (setTimeout st)) of
        (st2, Inl error) \<Rightarrow>
          (clearTimeout st2 (snd (setTimeout st)),
           Inl (Thrown_ApiServiceError (handleApiError error)))
      | (st2, Inr data) \<Rightarrow> (st2, Inr data))"
  using assms
  by (cases signal)
     (simp_all add: rewritePrompt_def validateRewriteRequest_None not_aborted_def split_beta)

subsection \<open>A signal that is already aborted\<close>

lemma generateImages_aborted:
  assumes "aborted s"
  shows "requests (fst (generateImages net st request (Some s))) = requests st"
    and "validateImageGenerationRequest request = [] \<Longrightarrow>
         snd (generateImages net st request (Some s))
           = Inl (Thrown_Error (JsError False ''Error'' ''Request was already cancelled''))"
  using assms
  by (simp_all add: generateImages_def validateRequest_None split_beta split: option.splits)

lemma rewritePrompt_aborted:
  assumes "aborted s"
  shows "requests (fst (rewritePrompt net st request (Some s))) = requests st"
    and "validatePromptRewriteRequest request = [] \<Longrightarrow>
         snd (rewritePrompt net st request (Some s))
           = Inl (Thrown_Error (JsError False ''Error'' ''Request was already cancelled''))"
  using assms
  by (simp_all add: rewritePrompt_def validateRewriteRequest_None split_beta
      split: option.splits)

text \<open>
  C2. With a signal that is already aborted, \<^verbatim>\<open>generateImages\<close> and \<^verbatim>\<open>rewritePrompt\<close>
  issue no request. But on a valid request what they throw is a plain
  \<^verbatim>\<open>Error('Request was already cancelled')\<close>: the \<^verbatim>\<open>throw\<close> stands before the
  \<^verbatim>\<open>try\<close> block, so it never reaches \<^verbatim>\<open>handleApiError\<close>, and the error is not a
  typed service error and carries no code \<^verbatim>\<open>REQUEST_CANCELLED\<close>.
\<close>

theorem aborted_signal_throws_plain_error:
  assumes "aborted s"
  shows "requests (fst (generateImages net st request (Some s))) = requests st
       \<and> requests (fst (rewritePrompt net st request' (Some s))) = requests st
       \<and> (validateImageGenerationRequest request = []
            \<longrightarrow> snd (generateImages net st request (Some s))
                  = Inl (Thrown_Error (JsError False ''Error'' ''Request was already cancelled'')))
       \<and> (validatePromptRewriteRequest request' = []
            \<longrightarrow> snd (rewritePrompt net st request' (Some s))
                  = Inl (Thrown_Error (JsError False ''Error'' ''Request was already cancelled'')))"
  using generateImages_aborted [OF assms] rewritePrompt_aborted [OF assms] by blast

theorem aborted_signal_throws_plain_error_witness:
  "aborted \<lparr>aborted = True\<rparr>
   \<and> snd (generateImages (always quota_response) browser0 sample_request (Some \<lparr>aborted = True\<rparr>))
       = Inl (Thrown_Error (JsError False ''Error'' ''Request was already cancelled''))
   \<and> requests (fst (generateImages (always quota_response) browser0 sample_request
                      (Some \<lparr>aborted = True\<rparr>))) = []
   \<and> snd (rewritePrompt (always quota_response) browser0 rewrite_request (Some \<lparr>aborted = True\<rparr>))
       = Inl (Thrown_Error (JsError False ''Error'' ''Request was already cancelled''))"
proof -
  have a: "aborted \<lparr>aborted = True\<rparr>" by simp
  have r: "requests browser0 = []" by (simp add: browser0_def)
  show ?thesis
    using aborted_signal_throws_plain_error [OF a, of "always quota_response" browser0
        sample_request rewrite_request]
      sample_request_valid rewrite_request_valid r
    by simp
qed

subsection \<open>Status 401\<close>

lemma unauthorized_authenticatedFetch:
  assumes "\<forall>q. net q = Inr response" "status response = 401"
  shows "unauthorized_outcome st (authenticatedFetch net st u options)"
  by (simp add: authenticatedFetch_401 [OF assms] unauthorized_outcome_def)

lemma generateImages_try_401:
  assumes "\<forall>q. net q = Inr response" "status response = 401"
  shows "generateImages_try net st request t =
           (handleAuthError (sent st (issued_request st (BASE_URL @ ''/api/image/generate'')
                \<lparr>url = [], http_method = ''POST'', headers = [], body = request\<rparr>)),
            Inl (Thrown_ApiServiceError
                  (new_ApiServiceError (JStr ''Authentication required'') (JStr ''HTTP_401'')
                     JUndefined None)))"
  unfolding generateImages_try_def authenticatedFetch_401 [OF assms] by simp

lemma unauthorized_generateImages:
  assumes "\<forall>q. net q = Inr response" "status response = 401"
    and "validateImageGenerationRequest request = []" "not_aborted signal"
  shows "unauthorized_outcome st (generateImages net st request signal)"
  unfolding generateImages_started [OF assms(3,4)] generateImages_try_401 [OF assms(1,2)]
  by (simp add: unauthorized_outcome_def)

lemma rewritePrompt_try_401:
  assumes "\<forall>q. net q = Inr response" "status response = 401"
  shows "rewritePrompt_try net st request t =
           (handleAuthError (sent st (issued_request st (BASE_URL @ ''/api/rewrite'')
                \<lparr>url = [], http_method = ''POST'', headers = [], body = request\<rparr>)),
            Inl (Thrown_ApiServiceError
                  (new_ApiServiceError (JStr ''Authentication required'') (JStr ''HTTP_401'')
                     JUndefined None)))"
  unfolding rewritePrompt_try_def authenticatedFetch_401 [OF assms] by simp

lemma unauthorized_rewritePrompt:
  assumes "\<forall>q. net q = Inr response" "status response = 401"
    and "validatePromptRewriteRequest request = []" "not_aborted signal"
  shows "unauthorized_outcome st (rewritePrompt net st request signal)"
  unfolding rewritePrompt_started [OF assms(3,4)] rewritePrompt_try_401 [OF assms(1,2)]
  by (simp add: unauthorized_outcome_def)

lemma generateVideo_try_401:
  assumes "\<forall>q. net q = Inr response" "status response = 401"
  shows "generateVideo_try net st request =
           (handleAuthError (sent st (issued_request st (BASE_URL @ ''/api/video/generate'')
                \<lparr>url = [], http_method = ''POST'', headers = [], body = request\<rparr>)),
            Inl (Thrown_ApiServiceError
                  (new_ApiServiceError (JStr ''Authentication required'') (JStr ''HTTP_401'')
                     JUndefined None)))"
  unfolding generateVideo_try_def authenticatedFetch_401 [OF assms] by simp

lemma unauthorized_generateVideo:
  assumes "\<forall>q. net q = Inr response" "status response = 401"
  shows "unauthorized_outcome st (generateVideo net st request)"
  unfolding generateVideo_def generateVideo_try_401 [OF assms]
  by (simp add: unauthorized_outcome_def)

text \<open>
  C6. When the network answers with status 401, \<^verbatim>\<open>authenticatedFetch\<close> removes the
  \<^verbatim>\<open>auth_token\<close> cookie, assigns the entry point \<^verbatim>\<open>/\<close> to
  \<^verbatim>\<open>window.location.href\<close> exactly once, and throws the typed service error with code
  \<^verbatim>\<open>HTTP_401\<close>. The calls built on it that reach the network (\<^verbatim>\<open>generateImages\<close> and
  \<^verbatim>\<open>rewritePrompt\<close> with a valid request and a signal not yet aborted,
  \<^verbatim>\<open>generateVideo\<close>) end in the same state and fail with the same error.
\<close>

theorem http_401_clears_credential:
  assumes "\<forall>q. net q = Inr response" and "status response = 401"
  shows "unauthorized_outcome st (authenticatedFetch net st u options)
       \<and> (validateImageGenerationRequest request = [] \<and> not_aborted signal
            \<longrightarrow> unauthorized_outcome st (generateImages net st request signal))
       \<and> (validatePromptRewriteRequest request' = [] \<and> not_aborted signal
            \<longrightarrow> unauthorized_outcome st (rewritePrompt net st request' signal))
       \<and> unauthorized_outcome st (generateVideo net st request'')"
  using unauthorized_authenticatedFetch [OF assms] unauthorized_generateImages [OF assms]
    unauthorized_rewritePrompt [OF assms] unauthorized_generateVideo [OF assms]
  by blast

theorem http_401_clears_credential_witness:
  "Cookies_get browser0 ''auth_token'' = Some ''secret''
   \<and> snd (generateImages (always unauthorized_response) browser0 sample_request None)
       = Inl (Thrown_ApiServiceError
               (new_ApiServiceError (JStr ''Authentication required'') (JStr ''HTTP_401'')
                  JUndefined None))
   \<and> Cookies_get (fst (generateImages (always unauthorized_response) browser0 sample_request None))
       ''auth_token'' = None
   \<and> href_assignments
       (fst (generateImages (always unauthorized_response) browser0 sample_request None)) = [''/'']"
proof -
  have n: "\<forall>q. always unauthorized_response q = Inr unauthorized_response"
    by (simp add: always_def)
  have s: "status unauthorized_response = 401"
    by (simp add: unauthorized_response_def)
  have c: "Cookies_get browser0 ''auth_token'' = Some ''secret''"
    by (simp add: Cookies_get_def browser0_def)
  have h: "href_assignments browser0 = []"
    by (simp add: browser0_def)
  show ?thesis
    using http_401_clears_credential [OF n s, of browser0 _ _ sample_request None]
      sample_request_valid c h
    by (simp add: unauthorized_outcome_def not_aborted_def)
qed

subsection \<open>A 2xx body with \<^verbatim>\<open>success: false\<close>\<close>

lemma ok_not_401: "ok response \<Longrightarrow> status response \<noteq> 401"
  by (simp add: ok_def)

lemma required_string_Nil_iff:
  "required_string res k msg = [] \<longleftrightarrow>
     truthy (get_prop res k) \<and> typeof (get_prop res k) = ''string''"
  by (simp add: required_string_def)

lemma validateResponse_failure:
  assumes "validateImageGenerationResponse data = []" "get_prop data ''success'' = JBool False"
  shows "validateResponse data = Some (api_error_of data)"
    and "typeof (get_prop data ''error'') = ''string''"
proof -
  have obj: "truthy data \<and> typeof data = ''object''"
    using assms(1) by (auto simp: validateImageGenerationResponse_def split: if_splits)
  have "required_string data ''error'' ''Error message must be a string'' = []"
    using assms obj by (simp add: validateImageGenerationResponse_def Let_def)
  then have err: "truthy (get_prop data ''error'')" "typeof (get_prop data ''error'') = ''string''"
    by (simp_all add: required_string_Nil_iff)
  show "typeof (get_prop data ''error'') = ''string''" by (rule err)
  show "validateResponse data = Some (api_error_of data)"
    using assms err(1) by (simp add: validateResponse_def isApiError_def api_error_of_def js_or_def)
qed

lemma validateRewriteResponse_failure:
  assumes "validatePromptRewriteResponse data = []" "get_prop data ''success'' = JBool False"
  shows "validateRewriteResponse data = Some (api_error_of data)"
    and "typeof (get_prop data ''error'') = ''string''"
proof -
  have obj: "truthy data \<and> typeof data = ''object''"
    using assms(1) by (auto simp: validatePromptRewriteResponse_def split: if_splits)
  have "required_string data ''error'' ''Error message must be a string'' = []"
    using assms obj by (simp add: validatePromptRewriteResponse_def Let_def)
  then have err: "truthy (get_prop data ''error'')" "typeof (get_prop data ''error'') = ''string''"
    by (simp_all add: required_string_Nil_iff)
  show "typeof (get_prop data ''error'') = ''string''" by (rule err)
  show "validateRewriteResponse data = Some (api_error_of data)"
    using assms err(1) obj
    by (simp add: validateRewriteResponse_def api_error_of_def js_or_def)
qed

lemma generateImages_try_failure_body:
  assumes "\<forall>q. net q = Inr response" "ok response" "json response = Inr data"
    and "validateImageGenerationResponse data = []" "get_prop data ''success'' = JBool False"
  shows "snd (generateImages_try net st request t)
           = Inl (Thrown_ApiServiceError (api_error_of data))"
  unfolding generateImages_try_def
    authenticatedFetch_response [OF assms(1) ok_not_401 [OF assms(2)]]
  using assms(2,3) validateResponse_failure(1) [OF assms(4,5)]
  by (simp add: parseResponse_def)

lemma rewritePrompt_try_failure_body:
  assumes "\<forall>q. net q = Inr response" "ok response" "json response = Inr data"
    and "validatePromptRewriteResponse data = []" "get_prop data ''success'' = JBool False"
  shows "snd (rewritePrompt_try net st request t)
           = Inl (Thrown_ApiServiceError (api_error_of data))"
  unfolding rewritePrompt_try_def
    authenticatedFetch_response [OF assms(1) ok_not_401 [OF assms(2)]]
  using assms(2,3) validateRewriteResponse_failure(1) [OF assms(4,5)]
  by (simp add: parseResponse_def)

lemma snd_catch:
  "snd r = Inl e \<Longrightarrow>
   snd (case r of
          (st2, Inl error) \<Rightarrow> (f st2, Inl (Thrown_ApiServiceError (handleApiError error)))
        | (st2, Inr data) \<Rightarrow> (st2, Inr data))
     = Inl (Thrown_ApiServiceError (handleApiError e))"
  by (cases r) auto

lemma generateVideo_returns_body:
  assumes "\<forall>q. net q = Inr response" "ok response" "json response = Inr data"
  shows "snd (generateVideo net st request) = Inr data"
  unfolding generateVideo_def generateVideo_try_def
    authenticatedFetch_response [OF assms(1) ok_not_401 [OF assms(2)]]
  using assms(2,3) by simp

text \<open>
  C1, as the code has it. Let the network answer with a 2xx response whose body parses to
  \<open>data\<close> with \<^verbatim>\<open>success\<close> equal to \<^verbatim>\<open>false\<close>. If \<open>data\<close> passes the response
  validator, \<^verbatim>\<open>generateImages\<close> and \<^verbatim>\<open>rewritePrompt\<close> (called with a valid request and
  a signal not yet aborted) throw the service error whose message is the body's error
  string, whose code is the body's code when that is truthy and \<^verbatim>\<open>API_ERROR\<close>
  otherwise, and whose details are the body's; they do not return the body.
  \<^verbatim>\<open>generateVideo\<close> validates nothing and returns the body as its value.
\<close>

theorem success_false_is_thrown:
  assumes "\<forall>q. net q = Inr response" and "ok response" and "json response = Inr data"
    and "get_prop data ''success'' = JBool False"
  shows "(validateImageGenerationRequest request = [] \<and> not_aborted signal
            \<and> validateImageGenerationResponse data = []
          \<longrightarrow> snd (generateImages net st request signal)
                = Inl (Thrown_ApiServiceError (api_error_of data))
              \<and> typeof (get_prop data ''error'') = ''string'')
       \<and> (validatePromptRewriteRequest request' = [] \<and> not_aborted signal
            \<and> validatePromptRewriteResponse data = []
          \<longrightarrow> snd (rewritePrompt net st request' signal)
                = Inl (Thrown_ApiServiceError (api_error_of data))
              \<and> typeof (get_prop data ''error'') = ''string'')
       \<and> snd (generateVideo net st request'') = Inr data"
proof (intro conjI impI)
  assume a: "validateImageGenerationRequest request = [] \<and> not_aborted signal
            \<and> validateImageGenerationResponse data = []"
  show "snd (generateImages net st request signal)
          = Inl (Thrown_ApiServiceError (api_error_of data))"
    using a generateImages_try_failure_body [OF assms(1,2,3) _ assms(4)]
    by (simp add: generateImages_started snd_catch)
  show "typeof (get_prop data ''error'') = ''string''"
    using a validateResponse_failure(2) [OF _ assms(4)] by simp
next
  assume a: "validatePromptRewriteRequest request' = [] \<and> not_aborted signal
            \<and> validatePromptRewriteResponse data = []"
  show "snd (rewritePrompt net st request' signal)
          = Inl (Thrown_ApiServiceError (api_error_of data))"
    using a rewritePrompt_try_failure_body [OF assms(1,2,3) _ assms(4)]
    by (simp add: rewritePrompt_started snd_catch)
  show "typeof (get_prop data ''error'') = ''string''"
    using a validateRewriteResponse_failure(2) [OF _ assms(4)] by simp
next
  show "snd (generateVideo net st request'') = Inr data"
    by (rule generateVideo_returns_body [OF assms(1,2,3)])
qed

text \<open>
  The claim as worded fails on \<^verbatim>\<open>generateVideo\<close>: given the 200 response with the body
  \<^verbatim>\<open>{success: false, error: "quota exceeded", code: "API_ERROR"}\<close>, the call returns that
  body to its caller.
\<close>

theorem generateVideo_returns_failure_body:
  "snd (generateVideo (always quota_response) browser0 video_request) = Inr quota_body"
proof -
  have "ok quota_response" "json quota_response = Inr quota_body"
    by (simp_all add: ok_def quota_response_def)
  then show ?thesis
    by (intro generateVideo_returns_body) (simp_all add: always_def)
qed

theorem success_false_is_thrown_witness:
  "ok quota_response \<and> json quota_response = Inr quota_body
   \<and> get_prop quota_body ''success'' = JBool False
   \<and> validateImageGenerationResponse quota_body = []
   \<and> snd (generateImages (always quota_response) browser0 sample_request None)
       = Inl (Thrown_ApiServiceError
               (new_ApiServiceError (JStr ''quota exceeded'') (JStr ''API_ERROR'')
                  JUndefined None))"
proof -
  have n: "\<forall>q. always quota_response q = Inr quota_response"
    by (simp add: always_def)
  have k: "ok quota_response"
    by (simp add: ok_def quota_response_def)
  have j: "json quota_response = Inr quota_body"
    by (simp add: quota_response_def)
  have f: "get_prop quota_body ''success'' = JBool False"
    by (simp add: quota_body_def)
  have v: "validateImageGenerationResponse quota_body = []"
    by (simp add: validateImageGenerationResponse_def quota_body_def required_string_def)
  have e: "api_error_of quota_body =
             new_ApiServiceError (JStr ''quota exceeded'') (JStr ''API_ERROR'') JUndefined None"
    by (simp add: api_error_of_def quota_body_def)
  show ?thesis
    using success_false_is_thrown [OF n k j f, of sample_request None browser0]
      sample_request_valid k j f v e
    by (simp add: not_aborted_def)
qed

end
